theory Spec2Isabelle
  imports Main "HOL-Library.Word" "HOL-Library.AList"
begin

section \<open>Strings\<close>

text \<open>
  A JavaScript string is a sequence of 16-bit code units, and \<open>length\<close> counts code
  units. The adapters only compare code units with the ASCII characters
  \<open>+ / - _ =\<close> and count them, so a string is a list of 16-bit words and a
  literal is the list of the codes of its characters.
\<close>

type_synonym code_unit = "16 word"

type_synonym jsstring = "code_unit list"

abbreviation cu :: "char \<Rightarrow> code_unit" where
  "cu c \<equiv> of_char c"

definition js :: "string \<Rightarrow> jsstring" where
  "js s = map cu s"

text \<open>
  \<open>s.replace(/a/g, 'b')\<close> for a pattern that is one literal character: every
  occurrence is replaced, everything else is kept.
\<close>

definition replaceAll :: "code_unit \<Rightarrow> code_unit \<Rightarrow> jsstring \<Rightarrow> jsstring" where
  "replaceAll a b s = map (\<lambda>c. if c = a then b else c) s"

text \<open>
  \<open>s.replace(/\=+$/, '')\<close>: the pattern has no \<open>g\<close> flag, so only the leftmost match
  is replaced. The matcher tries each start position from the left; \<open>=+$\<close> matches
  at a position exactly when the rest of the string from there is a non-empty run
  of \<open>=\<close> reaching the end of the input. The match is removed, the part before it
  is kept; without a match the string is returned as it is.
\<close>

fun replaceTrailingEq :: "jsstring \<Rightarrow> jsstring" where
  "replaceTrailingEq [] = []"
| "replaceTrailingEq (c # cs) =
     (if list_all (\<lambda>x. x = cu CHR ''='') (c # cs) then []
      else c # replaceTrailingEq cs)"

section \<open>The base64 conversions of the iOS adapter\<close>

text \<open>
  The loop of \<open>urlB64toStdB64\<close>:
  \<^verbatim>\<open>while (base64Standard.length % 4) { base64Standard += '='; }\<close>
\<close>

function padLoop :: "jsstring \<Rightarrow> jsstring" where
  "padLoop base64Standard =
     (if length base64Standard mod 4 \<noteq> 0
      then padLoop (base64Standard @ [cu CHR ''=''])
      else base64Standard)"
  by pat_completeness auto
termination
proof (relation "measure (\<lambda>s. (4 - length s mod 4) mod 4)")
  show "wf (measure (\<lambda>s::jsstring. (4 - length s mod 4) mod 4))"
    by simp
next
  fix s :: jsstring
  assume nz: "length s mod 4 \<noteq> 0"
  have "length s mod 4 < 4"
    by simp
  with nz have "(4 - Suc (length s) mod 4) mod 4 < (4 - length s mod 4) mod 4"
    by (auto simp: mod_Suc)
  then show "(s @ [cu CHR ''=''], s) \<in> measure (\<lambda>s. (4 - length s mod 4) mod 4)"
    by simp
qed

declare padLoop.simps [simp del]

definition urlB64toStdB64 :: "jsstring \<Rightarrow> jsstring" where
  "urlB64toStdB64 s =
     padLoop (replaceAll (cu CHR ''_'') (cu CHR ''/'') (replaceAll (cu CHR ''-'') (cu CHR ''+'') s))"

definition stdB64toUrlB64 :: "jsstring \<Rightarrow> jsstring" where
  "stdB64toUrlB64 s =
     replaceTrailingEq
       (replaceAll (cu CHR ''/'') (cu CHR ''_'') (replaceAll (cu CHR ''+'') (cu CHR ''-'') s))"

text \<open>
  The url-safe base64 alphabet: letters, digits, \<open>-\<close> and \<open>_\<close>. An unpadded
  url-safe string has all its characters in this alphabet (so no \<open>=\<close>).
\<close>

definition isUrlB64Char :: "code_unit \<Rightarrow> bool" where
  "isUrlB64Char c =
     ((cu CHR ''A'' \<le> c \<and> c \<le> cu CHR ''Z'') \<or> (cu CHR ''a'' \<le> c \<and> c \<le> cu CHR ''z'') \<or>
      (cu CHR ''0'' \<le> c \<and> c \<le> cu CHR ''9'') \<or> c = cu CHR ''-'' \<or> c = cu CHR ''_'')"

definition isUnpaddedUrlB64 :: "jsstring \<Rightarrow> bool" where
  "isUnpaddedUrlB64 x = list_all isUrlB64Char x"

section \<open>The native capability and the error classifier\<close>

text \<open>
  \<open>NativePasskey\<close> is the bridge to the platform's passkey provider. Its promise
  either resolves with a response or rejects with an error value, so a native
  operation is a function to a sum, \<open>Inl\<close> for the rejection. Each adapter
  operation returns, beside its outcome, the list of native invocations it
  issued, in order.
\<close>

datatype native_call =
    IOSRegister jsstring jsstring jsstring jsstring bool
  | IOSAuthenticate jsstring jsstring bool
  | AndroidRegister jsstring
  | AndroidAuthenticate jsstring

text \<open>
  What a \<open>catch\<close> clause of the adapters can receive: the value the native promise
  rejected with, the \<open>SyntaxError\<close> of \<open>JSON.parse\<close>, or a \<open>TypeError\<close>.
  \<open>handleNativeError\<close> (module \<open>./PasskeyError\<close>) is a parameter
  \<open>handleNativeError :: 'e thrown \<Rightarrow> 'k\<close> of the operations below.
\<close>

datatype 'e thrown = NativeError 'e | SyntaxError | TypeError

text \<open>
  How an operation of the Android adapter can fail: with the value built by
  the classifier in the \<open>catch\<close> clause, or with an exception raised outside the
  \<open>try\<close> block.
\<close>

datatype ('e, 'k) failure = Classified 'k | Uncaught "'e thrown"

text \<open>
  Modelled from the spec: \<open>handleNativeError\<close> of the module \<open>./PasskeyError\<close> and
  the values it returns. The classifier accepts whatever value was raised and
  maps it into one member of a closed enumeration of kinds: user cancellation,
  not supported on the device, request malformed, failure of the platform,
  unknown. Which raised value is given which kind is not fixed, so it is the
  parameter \<open>kindOf\<close>. What a caller finds in a failed operation is either a
  raised value as it was raised, or an error of one of the kinds.
\<close>

datatype error_kind = UserCancelled | NotSupported | RequestFailed | NativeFailure | UnknownError

datatype 'e caller_error = RawError "'e thrown" | PasskeyError error_kind

definition handleNativeErrorSpec :: "('e thrown \<Rightarrow> error_kind) \<Rightarrow> 'e thrown \<Rightarrow> 'e caller_error" where
  "handleNativeErrorSpec kindOf error = PasskeyError (kindOf error)"

section \<open>The iOS adapter\<close>

text \<open>
  Modelled from the spec: the declarations of \<open>PasskeyRegistrationRequest\<close> and
  \<open>PasskeyAuthenticationRequest\<close> (module \<open>./Passkey\<close>). A registration request
  has the relying party's id and name, the user's id, name and display name, the
  challenge, and further preferences; an authentication request has the relying
  party's id, the challenge, and further fields. The adapter reads \<open>rp.id\<close>,
  \<open>challenge\<close>, \<open>user.displayName\<close>, \<open>user.id\<close>, and \<open>rpId\<close>, \<open>challenge\<close>; the
  remaining fields are kept in one field of arbitrary type.
\<close>

record RelyingParty =
  rp_id :: jsstring
  rp_name :: jsstring

record UserEntity =
  user_id :: jsstring
  user_name :: jsstring
  user_displayName :: jsstring

record 'p PasskeyRegistrationRequest =
  rreq_challenge :: jsstring
  rreq_rp :: RelyingParty
  rreq_user :: UserEntity
  rreq_preferences :: 'p

record 'p PasskeyAuthenticationRequest =
  areq_rpId :: jsstring
  areq_challenge :: jsstring
  areq_preferences :: 'p

text \<open>The interfaces declared beside the adapter.\<close>

record PasskeyiOSRegistrationData =
  data_rpId :: jsstring
  data_challenge :: jsstring
  data_name :: jsstring
  data_userID :: jsstring

record NativeAttestationResponse =
  nreg_rawAttestationObject :: jsstring
  nreg_rawClientDataJSON :: jsstring

record PasskeyiOSRegistrationResult =
  nreg_credentialID :: jsstring
  nreg_response :: NativeAttestationResponse

record NativeAssertionResponse =
  nauth_rawAuthenticatorData :: jsstring
  nauth_rawClientDataJSON :: jsstring
  nauth_signature :: jsstring

record PasskeyiOSAuthenticationResult =
  nauth_credentialID :: jsstring
  nauth_userID :: jsstring
  nauth_response :: NativeAssertionResponse

text \<open>The results, with the fields the adapter's object literals give them.\<close>

record AttestationResponse =
  reg_clientDataJSON :: jsstring
  reg_attestationObject :: jsstring

record PasskeyRegistrationResult =
  reg_id :: jsstring
  reg_rawId :: jsstring
  reg_type :: jsstring
  reg_response :: AttestationResponse

record AssertionResponse =
  auth_clientDataJSON :: jsstring
  auth_authenticatorData :: jsstring
  auth_signature :: jsstring
  auth_userHandle :: jsstring

record PasskeyAuthenticationResult =
  auth_id :: jsstring
  auth_rawId :: jsstring
  auth_type :: jsstring
  auth_response :: AssertionResponse

text \<open>A parameter with the default \<open>false\<close>: an omitted argument is \<open>None\<close>.\<close>

definition orFalse :: "bool option \<Rightarrow> bool" where
  "orFalse withSecurityKey = (case withSecurityKey of None \<Rightarrow> False | Some b \<Rightarrow> b)"

definition prepareRegistrationRequest ::
  "'p PasskeyRegistrationRequest \<Rightarrow> PasskeyiOSRegistrationData" where
  "prepareRegistrationRequest request =
     \<lparr>data_rpId = rp_id (rreq_rp request),
      data_challenge = urlB64toStdB64 (rreq_challenge request),
      data_name = user_displayName (rreq_user request),
      data_userID = user_id (rreq_user request)\<rparr>"

definition handleNativeRegistrationResult ::
  "PasskeyiOSRegistrationResult \<Rightarrow> PasskeyRegistrationResult" where
  "handleNativeRegistrationResult result =
     \<lparr>reg_id = stdB64toUrlB64 (nreg_credentialID result),
      reg_rawId = stdB64toUrlB64 (nreg_credentialID result),
      reg_type = js ''public-key'',
      reg_response =
        \<lparr>reg_clientDataJSON = stdB64toUrlB64 (nreg_rawClientDataJSON (nreg_response result)),
         reg_attestationObject = stdB64toUrlB64 (nreg_rawAttestationObject (nreg_response result))\<rparr>\<rparr>"

definition handleNativeAuthenticationResult ::
  "PasskeyiOSAuthenticationResult \<Rightarrow> PasskeyAuthenticationResult" where
  "handleNativeAuthenticationResult result =
     \<lparr>auth_id = stdB64toUrlB64 (nauth_credentialID result),
      auth_rawId = stdB64toUrlB64 (nauth_credentialID result),
      auth_type = js ''public-key'',
      auth_response =
        \<lparr>auth_clientDataJSON = stdB64toUrlB64 (nauth_rawClientDataJSON (nauth_response result)),
         auth_authenticatorData = stdB64toUrlB64 (nauth_rawAuthenticatorData (nauth_response result)),
         auth_signature = stdB64toUrlB64 (nauth_signature (nauth_response result)),
         auth_userHandle = stdB64toUrlB64 (nauth_userID result)\<rparr>\<rparr>"

definition PasskeyiOS_register ::
  "(jsstring \<Rightarrow> jsstring \<Rightarrow> jsstring \<Rightarrow> jsstring \<Rightarrow> bool \<Rightarrow> 'e + PasskeyiOSRegistrationResult) \<Rightarrow>
   ('e thrown \<Rightarrow> 'k) \<Rightarrow> 'p PasskeyRegistrationRequest \<Rightarrow> bool option \<Rightarrow>
   native_call list \<times> ('k + PasskeyRegistrationResult)" where
  "PasskeyiOS_register nativeRegister handleNativeError request withSecurityKey =
     (let d = prepareRegistrationRequest request;
          rpId = data_rpId d; challenge = data_challenge d;
          name = data_name d; userID = data_userID d
      in ([IOSRegister rpId challenge name userID (orFalse withSecurityKey)],
          case nativeRegister rpId challenge name userID (orFalse withSecurityKey) of
            Inr response \<Rightarrow> Inr (handleNativeRegistrationResult response)
          | Inl error \<Rightarrow> Inl (handleNativeError (NativeError error))))"

definition PasskeyiOS_authenticate ::
  "(jsstring \<Rightarrow> jsstring \<Rightarrow> bool \<Rightarrow> 'e + PasskeyiOSAuthenticationResult) \<Rightarrow>
   ('e thrown \<Rightarrow> 'k) \<Rightarrow> 'p PasskeyAuthenticationRequest \<Rightarrow> bool option \<Rightarrow>
   native_call list \<times> ('k + PasskeyAuthenticationResult)" where
  "PasskeyiOS_authenticate nativeAuthenticate handleNativeError request withSecurityKey =
     ([IOSAuthenticate (areq_rpId request) (urlB64toStdB64 (areq_challenge request))
         (orFalse withSecurityKey)],
      case nativeAuthenticate (areq_rpId request) (urlB64toStdB64 (areq_challenge request))
             (orFalse withSecurityKey) of
        Inr response \<Rightarrow> Inr (handleNativeAuthenticationResult response)
      | Inl error \<Rightarrow> Inl (handleNativeError (NativeError error)))"

section \<open>The Android adapter\<close>

text \<open>
  The Android adapter handles its request and the parsed native response as
  plain objects: it spreads them and reads one property. An object is the list
  of its own properties in order, with distinct keys. A property value is a
  string, \<open>undefined\<close>, or any other plain datum (a number, a boolean, \<open>null\<close>, an
  array, a nested object), which the adapter never looks into.
\<close>

datatype 'a jsval = JUndefined | JString jsstring | JOther 'a

type_synonym 'a jsobject = "(jsstring \<times> 'a jsval) list"

text \<open>\<open>obj.k\<close> on the own properties: a missing property reads as \<open>undefined\<close>.\<close>

definition getProp :: "'a jsobject \<Rightarrow> jsstring \<Rightarrow> 'a jsval" where
  "getProp obj k = (case map_of obj k of None \<Rightarrow> JUndefined | Some v \<Rightarrow> v)"

text \<open>
  \<open>{...obj, k: v}\<close>: the copy has the properties of \<open>obj\<close> in their order; \<open>k\<close> keeps
  its place when \<open>obj\<close> has it and comes last otherwise.
\<close>

definition setProp :: "'a jsobject \<Rightarrow> jsstring \<Rightarrow> 'a jsval \<Rightarrow> 'a jsobject" where
  "setProp obj k v = AList.update k v obj"

text \<open>
  \<open>prepareRequest\<close>: \<open>request.challenge.replace(...)\<close> raises a \<open>TypeError\<close> when
  \<open>challenge\<close> is not a string (plain data other than strings has no method
  \<open>replace\<close>).
\<close>

definition prepareRequest :: "'a jsobject \<Rightarrow> 'e thrown + 'a jsobject" where
  "prepareRequest request =
     (case getProp request (js ''challenge'') of
        JString challenge \<Rightarrow>
          (let encodedChallenge =
                 replaceTrailingEq
                   (replaceAll (cu CHR ''/'') (cu CHR ''_'')
                     (replaceAll (cu CHR ''+'') (cu CHR ''-'') challenge))
           in Inr (setProp request (js ''challenge'') (JString encodedChallenge)))
      | _ \<Rightarrow> Inl TypeError)"

definition handleNativeResponse :: "'a jsobject \<Rightarrow> 'a jsobject" where
  "handleNativeResponse response =
     setProp (setProp response (js ''id'') (getProp response (js ''id''))) (js ''rawId'')
       (getProp response (js ''id''))"

text \<open>
  \<open>register\<close> and \<open>authenticate\<close>. \<open>JSON.stringify\<close> and \<open>JSON.parse\<close> are
  parameters; \<open>JSON_parse\<close> gives \<open>None\<close> where \<open>JSON.parse\<close> raises its
  \<open>SyntaxError\<close>, and the object where the text is that of an object, the
  declared type of the response. \<open>prepareRequest\<close> runs before the \<open>try\<close> block;
  the native call, the parsing and \<open>handleNativeResponse\<close> run inside it.
\<close>

definition PasskeyAndroid_register ::
  "('a jsobject \<Rightarrow> jsstring) \<Rightarrow> (jsstring \<Rightarrow> 'a jsobject option) \<Rightarrow>
   (jsstring \<Rightarrow> 'e + jsstring) \<Rightarrow> ('e thrown \<Rightarrow> 'k) \<Rightarrow> 'a jsobject \<Rightarrow>
   native_call list \<times> (('e, 'k) failure + 'a jsobject)" where
  "PasskeyAndroid_register JSON_stringify JSON_parse nativeRegister handleNativeError request =
     (case prepareRequest request of
        Inl err \<Rightarrow> ([], Inl (Uncaught err))
      | Inr nativeRequest \<Rightarrow>
          ([AndroidRegister (JSON_stringify nativeRequest)],
           case nativeRegister (JSON_stringify nativeRequest) of
             Inr response \<Rightarrow>
               (case JSON_parse response of
                  Some parsed \<Rightarrow> Inr (handleNativeResponse parsed)
                | None \<Rightarrow> Inl (Classified (handleNativeError SyntaxError)))
           | Inl error \<Rightarrow> Inl (Classified (handleNativeError (NativeError error)))))"

definition PasskeyAndroid_authenticate ::
  "('a jsobject \<Rightarrow> jsstring) \<Rightarrow> (jsstring \<Rightarrow> 'a jsobject option) \<Rightarrow>
   (jsstring \<Rightarrow> 'e + jsstring) \<Rightarrow> ('e thrown \<Rightarrow> 'k) \<Rightarrow> 'a jsobject \<Rightarrow>
   native_call list \<times> (('e, 'k) failure + 'a jsobject)" where
  "PasskeyAndroid_authenticate JSON_stringify JSON_parse nativeAuthenticate handleNativeError request =
     (case prepareRequest request of
        Inl err \<Rightarrow> ([], Inl (Uncaught err))
      | Inr nativeRequest \<Rightarrow>
          ([AndroidAuthenticate (JSON_stringify nativeRequest)],
           case nativeAuthenticate (JSON_stringify nativeRequest) of
             Inr response \<Rightarrow>
               (case JSON_parse response of
                  Some parsed \<Rightarrow> Inr (handleNativeResponse parsed)
                | None \<Rightarrow> Inl (Classified (handleNativeError SyntaxError)))
           | Inl error \<Rightarrow> Inl (Classified (handleNativeError (NativeError error)))))"

section \<open>Test doubles and example inputs\<close>

text \<open>
  Deterministic stand-ins for the native capability, for the classifier and
  for the JSON functions, and fixed inputs, on which the theorems below are
  instantiated. The native stand-ins give the same answer to every invocation.
\<close>

text \<open>
  The stand-in classifier reads the message of the rejected error.
\<close>

fun classifierDouble :: "jsstring thrown \<Rightarrow> error_kind" where
  "classifierDouble (NativeError message) =
     (if message = js ''UserCancelled'' then UserCancelled
      else if message = js ''NotSupported'' then NotSupported
      else if message = js ''RequestFailed'' then RequestFailed
      else NativeFailure)"
| "classifierDouble SyntaxError = UnknownError"
| "classifierDouble TypeError = UnknownError"

definition iosRegisterDouble ::
  "'e + PasskeyiOSRegistrationResult \<Rightarrow>
   jsstring \<Rightarrow> jsstring \<Rightarrow> jsstring \<Rightarrow> jsstring \<Rightarrow> bool \<Rightarrow> 'e + PasskeyiOSRegistrationResult" where
  "iosRegisterDouble answer rpId challenge name userID withSecurityKey = answer"

definition iosAuthenticateDouble ::
  "'e + PasskeyiOSAuthenticationResult \<Rightarrow>
   jsstring \<Rightarrow> jsstring \<Rightarrow> bool \<Rightarrow> 'e + PasskeyiOSAuthenticationResult" where
  "iosAuthenticateDouble answer rpId challenge withSecurityKey = answer"

definition exampleRegistrationRequest :: "unit PasskeyRegistrationRequest" where
  "exampleRegistrationRequest =
     \<lparr>rreq_challenge = js ''abc-_'',
      rreq_rp = \<lparr>rp_id = js ''example.com'', rp_name = js ''Example''\<rparr>,
      rreq_user = \<lparr>user_id = js ''dXNlcg'', user_name = js ''user'', user_displayName = js ''User''\<rparr>,
      rreq_preferences = ()\<rparr>"

definition renamedRegistrationRequest :: "unit PasskeyRegistrationRequest" where
  "renamedRegistrationRequest =
     \<lparr>rreq_challenge = js ''abc-_'',
      rreq_rp = \<lparr>rp_id = js ''example.com'', rp_name = js ''Another name''\<rparr>,
      rreq_user = \<lparr>user_id = js ''dXNlcg'', user_name = js ''someone'', user_displayName = js ''User''\<rparr>,
      rreq_preferences = ()\<rparr>"

definition exampleAuthenticationRequest :: "unit PasskeyAuthenticationRequest" where
  "exampleAuthenticationRequest =
     \<lparr>areq_rpId = js ''example.com'', areq_challenge = js ''YQ'', areq_preferences = ()\<rparr>"

definition exampleNativeRegistration :: PasskeyiOSRegistrationResult where
  "exampleNativeRegistration =
     \<lparr>nreg_credentialID = js ''ZGVmZw=='',
      nreg_response = \<lparr>nreg_rawAttestationObject = js ''o2M+/w=='', nreg_rawClientDataJSON = js ''eyJ0/+A=''\<rparr>\<rparr>"

definition exampleNativeAuthentication :: PasskeyiOSAuthenticationResult where
  "exampleNativeAuthentication =
     \<lparr>nauth_credentialID = js ''ZGVmZw=='',
      nauth_userID = js ''dXNlcg=='',
      nauth_response =
        \<lparr>nauth_rawAuthenticatorData = js ''SZYN+/8='', nauth_rawClientDataJSON = js ''eyJ0/+A='',
         nauth_signature = js ''MEUC/+E=''\<rparr>\<rparr>"

definition androidNativeDouble :: "'e + jsstring \<Rightarrow> jsstring \<Rightarrow> 'e + jsstring" where
  "androidNativeDouble answer request = answer"

text \<open>
  A stand-in for \<open>JSON.stringify\<close>: the keys of the object and its string values,
  in order. A stand-in for \<open>JSON.parse\<close>: a fixed answer.
\<close>

fun textOfValue :: "'a jsval \<Rightarrow> jsstring" where
  "textOfValue (JString s) = s"
| "textOfValue JUndefined = []"
| "textOfValue (JOther x) = []"

definition stringifyDouble :: "'a jsobject \<Rightarrow> jsstring" where
  "stringifyDouble obj = concat (map (\<lambda>p. fst p @ js '':'' @ textOfValue (snd p) @ js '';'') obj)"

definition parseDouble :: "'a jsobject option \<Rightarrow> jsstring \<Rightarrow> 'a jsobject option" where
  "parseDouble answer text = answer"

definition exampleAndroidRequest :: "unit jsobject" where
  "exampleAndroidRequest =
     [(js ''rpId'', JString (js ''example.com'')),
      (js ''challenge'', JString (js ''a+b/c='')),
      (js ''timeout'', JOther ())]"

definition exampleAndroidResponse :: "unit jsobject" where
  "exampleAndroidResponse =
     [(js ''rawId'', JString (js ''b3RoZXI'')),
      (js ''id'', JString (js ''ZGVmZw'')),
      (js ''type'', JString (js ''other'')),
      (js ''response'', JOther ())]"

section \<open>Properties of the conversions\<close>

lemma padLoop_replicate:
  "padLoop s = s @ replicate ((4 - length s mod 4) mod 4) (cu CHR ''='')"
proof (induction s rule: padLoop.induct)
  case (1 s)
  show ?case
  proof (cases "length s mod 4 = 0")
    case True
    then show ?thesis
      by (subst padLoop.simps) simp
  next
    case False
    have lt: "length s mod 4 < 4"
      by simp
    have step: "Suc ((4 - Suc (length s) mod 4) mod 4) = (4 - length s mod 4) mod 4"
      using False lt by (auto simp: mod_Suc)
    have "padLoop s = padLoop (s @ [cu CHR ''=''])"
      using False by (subst padLoop.simps) simp
    also have "\<dots> = (s @ [cu CHR ''='']) @ replicate ((4 - Suc (length s) mod 4) mod 4) (cu CHR ''='')"
      using "1.IH" [OF False] by simp
    also have "\<dots> = s @ replicate (Suc ((4 - Suc (length s) mod 4) mod 4)) (cu CHR ''='')"
      by simp
    finally show ?thesis
      by (simp only: step)
  qed
qed

lemma replaceTrailingEq_all:
  "list_all (\<lambda>x. x = cu CHR ''='') s \<Longrightarrow> replaceTrailingEq s = []"
  by (cases s) simp_all

text \<open>Removing the leftmost match of \<open>=+$\<close> is removing the trailing run of \<open>=\<close>.\<close>

lemma replaceTrailingEq_dropWhile:
  "replaceTrailingEq s = rev (dropWhile (\<lambda>x. x = cu CHR ''='') (rev s))"
proof (induction s)
  case Nil
  show ?case by simp
next
  case (Cons c cs)
  show ?case
  proof (cases "list_all (\<lambda>x. x = cu CHR ''='') (c # cs)")
    case True
    then have "\<forall>x \<in> set (rev cs @ [c]). x = cu CHR ''=''"
      by (auto simp: list_all_iff)
    then have "dropWhile (\<lambda>x. x = cu CHR ''='') (rev cs @ [c]) = []"
      by (simp only: dropWhile_eq_Nil_conv)
    with True show ?thesis by simp
  next
    case False
    show ?thesis
    proof (cases "list_all (\<lambda>x. x = cu CHR ''='') cs")
      case True
      with False have c: "c \<noteq> cu CHR ''=''" by simp
      from True have "dropWhile (\<lambda>x. x = cu CHR ''='') (rev cs) = []"
        by (simp add: list_all_iff)
      then have "dropWhile (\<lambda>x. x = cu CHR ''='') (rev cs @ [c]) = [c]"
        using c True by (simp add: dropWhile_append list_all_iff)
      with False True show ?thesis
        by (simp add: replaceTrailingEq_all)
    next
      case nall: False
      then obtain x where x: "x \<in> set (rev cs)" "x \<noteq> cu CHR ''=''"
        by (auto simp: list_all_iff)
      then have "dropWhile (\<lambda>x. x = cu CHR ''='') (rev cs @ [c]) =
                 dropWhile (\<lambda>x. x = cu CHR ''='') (rev cs) @ [c]"
        by (intro dropWhile_append1) auto
      with False Cons.IH show ?thesis by simp
    qed
  qed
qed

lemma replaceTrailingEq_padded:
  assumes "s = [] \<or> last s \<noteq> cu CHR ''=''"
  shows "replaceTrailingEq (s @ replicate k (cu CHR ''='')) = s"
proof -
  have "dropWhile (\<lambda>x. x = cu CHR ''='') (replicate k (cu CHR ''='') @ rev s) =
        dropWhile (\<lambda>x. x = cu CHR ''='') (rev s)"
    by (induction k) simp_all
  moreover have "dropWhile (\<lambda>x. x = cu CHR ''='') (rev s) = rev s"
    using assms by (cases s rule: rev_cases) simp_all
  ultimately show ?thesis
    by (simp add: replaceTrailingEq_dropWhile)
qed

lemma isUrlB64Char_not_special:
  assumes "isUrlB64Char c"
  shows "c \<noteq> cu CHR ''+''" and "c \<noteq> cu CHR ''/''" and "c \<noteq> cu CHR ''=''"
  using assms by (auto simp: isUrlB64Char_def)

lemma length_replaceAll: "length (replaceAll a b s) = length s"
  by (simp add: replaceAll_def)

lemma urlB64toStdB64_replicate:
  "urlB64toStdB64 s =
     replaceAll (cu CHR ''_'') (cu CHR ''/'') (replaceAll (cu CHR ''-'') (cu CHR ''+'') s) @
     replicate ((4 - length s mod 4) mod 4) (cu CHR ''='')"
  by (simp add: urlB64toStdB64_def padLoop_replicate length_replaceAll)

lemma pad_count_le_3: "(4 - n mod 4) mod 4 \<le> (3::nat)"
proof -
  have "(4 - n mod 4) mod 4 < 4"
    by (rule mod_less_divisor) simp
  then show ?thesis by simp
qed

lemma padded_length_mod_4: "(n + (4 - n mod 4) mod 4) mod 4 = (0::nat)"
proof -
  have "n mod 4 < 4" by simp
  then have "n mod 4 = 0 \<or> n mod 4 = 1 \<or> n mod 4 = 2 \<or> n mod 4 = 3"
    by arith
  then have "(n mod 4 + (4 - n mod 4) mod 4) mod 4 = 0"
    by auto
  then show ?thesis
    by (simp add: mod_add_left_eq [symmetric, of n])
qed

lemma replaceAll_roundtrip:
  assumes "\<forall>c \<in> set x. c \<noteq> cu CHR ''+'' \<and> c \<noteq> cu CHR ''/''"
  shows "replaceAll (cu CHR ''/'') (cu CHR ''_'') (replaceAll (cu CHR ''+'') (cu CHR ''-'')
           (replaceAll (cu CHR ''_'') (cu CHR ''/'') (replaceAll (cu CHR ''-'') (cu CHR ''+'') x))) = x"
  using assms by (induction x) (auto simp: replaceAll_def)

lemma replaceAll_append: "replaceAll a b (s @ t) = replaceAll a b s @ replaceAll a b t"
  by (simp add: replaceAll_def)

lemma replaceAll_padding:
  "replaceAll (cu CHR ''+'') (cu CHR ''-'') (replicate k (cu CHR ''='')) = replicate k (cu CHR ''='')"
  "replaceAll (cu CHR ''/'') (cu CHR ''_'') (replicate k (cu CHR ''='')) = replicate k (cu CHR ''='')"
  by (simp_all add: replaceAll_def)

lemma replicate_small:
  "replicate 1 x = [x]" "replicate 2 x = [x, x]" "replicate 3 x = [x, x, x]"
  by (simp_all add: numeral_2_eq_2 numeral_3_eq_3)

section \<open>Claims about the base64 conversions\<close>

text \<open>
  C10. For every string \<open>s\<close>, valid base64 or not, the padding loop of
  \<open>urlB64toStdB64\<close> terminates (\<open>padLoop\<close> is a total function), it appends
  \<open>(4 - length s mod 4) mod 4\<close> characters \<open>=\<close>, which is at most 3, to the string
  with its characters replaced, and the length of the returned string is a
  multiple of 4.
\<close>

theorem urlB64toStdB64_pads_to_multiple_of_4:
  "urlB64toStdB64 s =
     replaceAll (cu CHR ''_'') (cu CHR ''/'') (replaceAll (cu CHR ''-'') (cu CHR ''+'') s) @
     replicate ((4 - length s mod 4) mod 4) (cu CHR ''='') \<and>
   (4 - length s mod 4) mod 4 \<le> 3 \<and>
   length (urlB64toStdB64 s) mod 4 = 0"
proof -
  have "length (urlB64toStdB64 s) = length s + (4 - length s mod 4) mod 4"
    by (simp add: urlB64toStdB64_replicate length_replaceAll)
  then have "length (urlB64toStdB64 s) mod 4 = 0"
    by (simp only: padded_length_mod_4)
  with urlB64toStdB64_replicate [of s] pad_count_le_3 [of "length s"] show ?thesis
    by blast
qed

text \<open>
  C1. For every unpadded url-safe base64 string \<open>x\<close> (every character in the
  url-safe alphabet), converting to the standard alphabet with padding and back
  returns \<open>x\<close>: \<open>stdB64toUrlB64 (urlB64toStdB64 x) = x\<close>.
\<close>

theorem stdB64toUrlB64_urlB64toStdB64:
  assumes "isUnpaddedUrlB64 x"
  shows "stdB64toUrlB64 (urlB64toStdB64 x) = x"
proof -
  let ?k = "(4 - length x mod 4) mod 4"
  from assms have chars: "\<forall>c \<in> set x. isUrlB64Char c"
    by (simp add: isUnpaddedUrlB64_def list_all_iff)
  then have no_std: "\<forall>c \<in> set x. c \<noteq> cu CHR ''+'' \<and> c \<noteq> cu CHR ''/''"
    using isUrlB64Char_not_special by blast
  have no_pad: "x = [] \<or> last x \<noteq> cu CHR ''=''"
  proof (cases "x = []")
    case True
    then show ?thesis by simp
  next
    case False
    then have "last x \<in> set x" by simp
    with chars show ?thesis
      using isUrlB64Char_not_special(3) by blast
  qed
  have "stdB64toUrlB64 (urlB64toStdB64 x) =
        replaceTrailingEq (x @ replicate ?k (cu CHR ''=''))"
    by (simp only: stdB64toUrlB64_def urlB64toStdB64_replicate replaceAll_append
        replaceAll_padding replaceAll_roundtrip [OF no_std])
  also have "\<dots> = x"
    using no_pad by (rule replaceTrailingEq_padded)
  finally show ?thesis .
qed

theorem stdB64toUrlB64_urlB64toStdB64_witness:
  "isUnpaddedUrlB64 (js ''ab-_c9'') \<and>
   urlB64toStdB64 (js ''ab-_c9'') = js ''ab+/c9=='' \<and>
   stdB64toUrlB64 (urlB64toStdB64 (js ''ab-_c9'')) = js ''ab-_c9''"
proof -
  have valid: "isUnpaddedUrlB64 (js ''ab-_c9'')"
    by (simp add: isUnpaddedUrlB64_def isUrlB64Char_def js_def)
  have padded: "urlB64toStdB64 (js ''ab-_c9'') = js ''ab+/c9==''"
    by (simp add: urlB64toStdB64_replicate replaceAll_def js_def replicate_small)
  from valid padded stdB64toUrlB64_urlB64toStdB64 [OF valid] show ?thesis
    by (intro conjI)
qed

section \<open>Claims about the iOS adapter\<close>

lemma urlB64toStdB64_abc: "urlB64toStdB64 (js ''abc-_'') = js ''abc+/===''"
  by (simp add: urlB64toStdB64_replicate replaceAll_def js_def replicate_small)

text \<open>
  C3, as stated: for a registration request with the challenge \<open>abc-_\<close>, the
  native capability is invoked with the challenge \<open>abc+/=\<close>. On the example
  request the invocation is a different one: \<open>abc-_\<close> has five characters, and
  padding to a multiple of 4 gives eight.
\<close>

theorem iOS_register_challenge_abc_counterexample:
  "fst (PasskeyiOS_register (iosRegisterDouble (Inr exampleNativeRegistration)) classifierDouble
          exampleRegistrationRequest None) =
   [IOSRegister (js ''example.com'') (js ''abc+/==='') (js ''User'') (js ''dXNlcg'') False] \<and>
   js ''abc+/==='' \<noteq> js ''abc+/=''"
proof
  show "fst (PasskeyiOS_register (iosRegisterDouble (Inr exampleNativeRegistration)) classifierDouble
          exampleRegistrationRequest None) =
   [IOSRegister (js ''example.com'') (js ''abc+/==='') (js ''User'') (js ''dXNlcg'') False]"
    by (simp add: PasskeyiOS_register_def prepareRegistrationRequest_def
        exampleRegistrationRequest_def orFalse_def Let_def urlB64toStdB64_abc)
  show "js ''abc+/==='' \<noteq> js ''abc+/=''"
    by (simp add: js_def)
qed

text \<open>
  C3, amended: for a registration request with the challenge \<open>abc-_\<close>, \<open>register\<close>
  issues one native invocation, with the challenge \<open>abc+/===\<close> (the standard
  alphabet, padded with \<open>=\<close> to the length 8), the relying party's id, the
  user's display name and id, and the flag.
\<close>

theorem iOS_register_challenge_abc:
  assumes "rreq_challenge request = js ''abc-_''"
  shows "fst (PasskeyiOS_register nativeRegister handleNativeError request withSecurityKey) =
         [IOSRegister (rp_id (rreq_rp request)) (js ''abc+/==='')
            (user_displayName (rreq_user request)) (user_id (rreq_user request))
            (orFalse withSecurityKey)]"
  using assms
  by (simp add: PasskeyiOS_register_def prepareRegistrationRequest_def Let_def urlB64toStdB64_abc)

theorem iOS_register_challenge_abc_witness:
  "rreq_challenge exampleRegistrationRequest = js ''abc-_'' \<and>
   fst (PasskeyiOS_register (iosRegisterDouble (Inr exampleNativeRegistration)) classifierDouble
          exampleRegistrationRequest None) =
   [IOSRegister (js ''example.com'') (js ''abc+/==='') (js ''User'') (js ''dXNlcg'') False]"
proof -
  have c: "rreq_challenge exampleRegistrationRequest = js ''abc-_''"
    by (simp add: exampleRegistrationRequest_def)
  from c iOS_register_challenge_abc [OF c, of "iosRegisterDouble (Inr exampleNativeRegistration)"
      classifierDouble None]
  show ?thesis
    by (simp add: exampleRegistrationRequest_def orFalse_def)
qed

lemma stdB64toUrlB64_examples:
  "stdB64toUrlB64 (js ''ZGVmZw=='') = js ''ZGVmZw''"
  "stdB64toUrlB64 (js ''o2M+/w=='') = js ''o2M-_w''"
  "stdB64toUrlB64 (js ''eyJ0/+A='') = js ''eyJ0_-A''"
  "stdB64toUrlB64 (js ''dXNlcg=='') = js ''dXNlcg''"
  "stdB64toUrlB64 (js ''SZYN+/8='') = js ''SZYN-_8''"
  "stdB64toUrlB64 (js ''MEUC/+E='') = js ''MEUC_-E''"
  by (simp_all add: stdB64toUrlB64_def replaceAll_def js_def)

text \<open>
  What \<open>stdB64toUrlB64\<close> returns is url-safe and unpadded: it has no \<open>+\<close>, no
  \<open>/\<close>, and no \<open>=\<close> at its end.
\<close>

lemma stdB64toUrlB64_url_safe:
  "cu CHR ''+'' \<notin> set (stdB64toUrlB64 s)" "cu CHR ''/'' \<notin> set (stdB64toUrlB64 s)"
proof -
  let ?t = "replaceAll (cu CHR ''/'') (cu CHR ''_'') (replaceAll (cu CHR ''+'') (cu CHR ''-'') s)"
  have sub: "set (stdB64toUrlB64 s) \<subseteq> set ?t"
    by (auto simp: stdB64toUrlB64_def replaceTrailingEq_dropWhile dest: set_dropWhileD)
  have "cu CHR ''+'' \<notin> set ?t" "cu CHR ''/'' \<notin> set ?t"
    by (auto simp: replaceAll_def)
  with sub show "cu CHR ''+'' \<notin> set (stdB64toUrlB64 s)" "cu CHR ''/'' \<notin> set (stdB64toUrlB64 s)"
    by blast+
qed

lemma stdB64toUrlB64_unpadded: "stdB64toUrlB64 s \<noteq> t @ [cu CHR ''='']"
proof
  let ?u = "rev (replaceAll (cu CHR ''/'') (cu CHR ''_'') (replaceAll (cu CHR ''+'') (cu CHR ''-'') s))"
  assume "stdB64toUrlB64 s = t @ [cu CHR ''='']"
  then have "dropWhile (\<lambda>x. x = cu CHR ''='') ?u = cu CHR ''='' # rev t"
    by (simp add: stdB64toUrlB64_def replaceTrailingEq_dropWhile rev_swap)
  then show False
    using hd_dropWhile [of "\<lambda>x. x = cu CHR ''=''" ?u] by auto
qed

text \<open>
  C4. When the native capability resolves with a registration result, \<open>register\<close>
  returns a result whose \<open>id\<close> and \<open>rawId\<close> are both \<open>stdB64toUrlB64\<close> of the
  native \<open>credentialID\<close> (without \<open>+\<close>, \<open>/\<close> or a final \<open>=\<close>), and whose
  \<open>clientDataJSON\<close> and \<open>attestationObject\<close> are \<open>stdB64toUrlB64\<close> of the native
  \<open>rawClientDataJSON\<close> and \<open>rawAttestationObject\<close>; for the \<open>credentialID\<close>
  \<open>ZGVmZw==\<close> both \<open>id\<close> and \<open>rawId\<close> are \<open>ZGVmZw\<close>.
\<close>

theorem iOS_register_result:
  assumes "nativeRegister (rp_id (rreq_rp request)) (urlB64toStdB64 (rreq_challenge request))
             (user_displayName (rreq_user request)) (user_id (rreq_user request))
             (orFalse withSecurityKey) = Inr result"
  shows "\<exists>res. snd (PasskeyiOS_register nativeRegister handleNativeError request withSecurityKey) = Inr res \<and>
           reg_id res = stdB64toUrlB64 (nreg_credentialID result) \<and>
           reg_rawId res = stdB64toUrlB64 (nreg_credentialID result) \<and>
           reg_clientDataJSON (reg_response res) =
             stdB64toUrlB64 (nreg_rawClientDataJSON (nreg_response result)) \<and>
           reg_attestationObject (reg_response res) =
             stdB64toUrlB64 (nreg_rawAttestationObject (nreg_response result)) \<and>
           cu CHR ''+'' \<notin> set (reg_id res) \<and> cu CHR ''/'' \<notin> set (reg_id res) \<and>
           (\<forall>t. reg_id res \<noteq> t @ [cu CHR ''='']) \<and>
           (nreg_credentialID result = js ''ZGVmZw=='' \<longrightarrow>
              reg_id res = js ''ZGVmZw'' \<and> reg_rawId res = js ''ZGVmZw'')"
proof -
  let ?res = "handleNativeRegistrationResult result"
  have "snd (PasskeyiOS_register nativeRegister handleNativeError request withSecurityKey) = Inr ?res"
    using assms by (simp add: PasskeyiOS_register_def prepareRegistrationRequest_def Let_def)
  moreover have "reg_id ?res = stdB64toUrlB64 (nreg_credentialID result)"
    and "reg_rawId ?res = stdB64toUrlB64 (nreg_credentialID result)"
    and "reg_clientDataJSON (reg_response ?res) =
           stdB64toUrlB64 (nreg_rawClientDataJSON (nreg_response result))"
    and "reg_attestationObject (reg_response ?res) =
           stdB64toUrlB64 (nreg_rawAttestationObject (nreg_response result))"
    by (simp_all add: handleNativeRegistrationResult_def)
  ultimately show ?thesis
    using stdB64toUrlB64_url_safe [of "nreg_credentialID result"]
      stdB64toUrlB64_unpadded [of "nreg_credentialID result"]
      stdB64toUrlB64_examples(1)
    by auto
qed

theorem iOS_register_result_witness:
  "iosRegisterDouble (Inr exampleNativeRegistration)
     (rp_id (rreq_rp exampleRegistrationRequest))
     (urlB64toStdB64 (rreq_challenge exampleRegistrationRequest))
     (user_displayName (rreq_user exampleRegistrationRequest))
     (user_id (rreq_user exampleRegistrationRequest)) (orFalse None) =
   (Inr exampleNativeRegistration :: jsstring + PasskeyiOSRegistrationResult) \<and>
   (\<exists>res. snd (PasskeyiOS_register (iosRegisterDouble (Inr exampleNativeRegistration))
                 classifierDouble exampleRegistrationRequest None) = Inr res \<and>
      reg_id res = js ''ZGVmZw'' \<and> reg_rawId res = js ''ZGVmZw'' \<and>
      reg_clientDataJSON (reg_response res) = js ''eyJ0_-A'' \<and>
      reg_attestationObject (reg_response res) = js ''o2M-_w'')"
proof -
  have native: "iosRegisterDouble (Inr exampleNativeRegistration)
     (rp_id (rreq_rp exampleRegistrationRequest))
     (urlB64toStdB64 (rreq_challenge exampleRegistrationRequest))
     (user_displayName (rreq_user exampleRegistrationRequest))
     (user_id (rreq_user exampleRegistrationRequest)) (orFalse None) =
   (Inr exampleNativeRegistration :: jsstring + PasskeyiOSRegistrationResult)"
    by (simp add: iosRegisterDouble_def)
  from iOS_register_result
    [where nativeRegister = "iosRegisterDouble (Inr exampleNativeRegistration)"
       and request = exampleRegistrationRequest and withSecurityKey = None
       and result = exampleNativeRegistration and handleNativeError = classifierDouble,
     OF native]
  have "\<exists>res. snd (PasskeyiOS_register (iosRegisterDouble (Inr exampleNativeRegistration))
                 classifierDouble exampleRegistrationRequest None) = Inr res \<and>
      reg_id res = js ''ZGVmZw'' \<and> reg_rawId res = js ''ZGVmZw'' \<and>
      reg_clientDataJSON (reg_response res) = js ''eyJ0_-A'' \<and>
      reg_attestationObject (reg_response res) = js ''o2M-_w''"
    by (auto simp add: exampleNativeRegistration_def stdB64toUrlB64_examples)
  with native show ?thesis
    by (rule conjI)
qed

text \<open>
  C7. When the native capability resolves with an authentication result,
  \<open>authenticate\<close> returns a result whose \<open>id\<close> and \<open>rawId\<close> are \<open>stdB64toUrlB64\<close>
  of the native \<open>credentialID\<close>, and whose response has \<open>stdB64toUrlB64\<close> of
  \<open>rawClientDataJSON\<close> as \<open>clientDataJSON\<close>, of \<open>rawAuthenticatorData\<close> as
  \<open>authenticatorData\<close>, of \<open>signature\<close> as \<open>signature\<close>, and of the native
  \<open>userID\<close> as \<open>userHandle\<close>.
\<close>

theorem iOS_authenticate_result:
  assumes "nativeAuthenticate (areq_rpId request) (urlB64toStdB64 (areq_challenge request))
             (orFalse withSecurityKey) = Inr result"
  shows "\<exists>res. snd (PasskeyiOS_authenticate nativeAuthenticate handleNativeError request
                     withSecurityKey) = Inr res \<and>
           auth_id res = stdB64toUrlB64 (nauth_credentialID result) \<and>
           auth_rawId res = stdB64toUrlB64 (nauth_credentialID result) \<and>
           auth_clientDataJSON (auth_response res) =
             stdB64toUrlB64 (nauth_rawClientDataJSON (nauth_response result)) \<and>
           auth_authenticatorData (auth_response res) =
             stdB64toUrlB64 (nauth_rawAuthenticatorData (nauth_response result)) \<and>
           auth_signature (auth_response res) =
             stdB64toUrlB64 (nauth_signature (nauth_response result)) \<and>
           auth_userHandle (auth_response res) = stdB64toUrlB64 (nauth_userID result)"
proof -
  let ?res = "handleNativeAuthenticationResult result"
  have "snd (PasskeyiOS_authenticate nativeAuthenticate handleNativeError request withSecurityKey) =
        Inr ?res"
    using assms by (simp add: PasskeyiOS_authenticate_def)
  then show ?thesis
    by (simp add: handleNativeAuthenticationResult_def)
qed

theorem iOS_authenticate_result_witness:
  "iosAuthenticateDouble (Inr exampleNativeAuthentication)
     (areq_rpId exampleAuthenticationRequest)
     (urlB64toStdB64 (areq_challenge exampleAuthenticationRequest)) (orFalse (Some True)) =
   (Inr exampleNativeAuthentication :: jsstring + PasskeyiOSAuthenticationResult) \<and>
   (\<exists>res. snd (PasskeyiOS_authenticate (iosAuthenticateDouble (Inr exampleNativeAuthentication))
                 classifierDouble exampleAuthenticationRequest (Some True)) = Inr res \<and>
      auth_id res = js ''ZGVmZw'' \<and> auth_rawId res = js ''ZGVmZw'' \<and>
      auth_clientDataJSON (auth_response res) = js ''eyJ0_-A'' \<and>
      auth_authenticatorData (auth_response res) = js ''SZYN-_8'' \<and>
      auth_signature (auth_response res) = js ''MEUC_-E'' \<and>
      auth_userHandle (auth_response res) = js ''dXNlcg'')"
proof -
  have native: "iosAuthenticateDouble (Inr exampleNativeAuthentication)
     (areq_rpId exampleAuthenticationRequest)
     (urlB64toStdB64 (areq_challenge exampleAuthenticationRequest)) (orFalse (Some True)) =
   (Inr exampleNativeAuthentication :: jsstring + PasskeyiOSAuthenticationResult)"
    by (simp add: iosAuthenticateDouble_def)
  from iOS_authenticate_result
    [where nativeAuthenticate = "iosAuthenticateDouble (Inr exampleNativeAuthentication)"
       and request = exampleAuthenticationRequest and withSecurityKey = "Some True"
       and result = exampleNativeAuthentication and handleNativeError = classifierDouble,
     OF native]
  have "\<exists>res. snd (PasskeyiOS_authenticate (iosAuthenticateDouble (Inr exampleNativeAuthentication))
                 classifierDouble exampleAuthenticationRequest (Some True)) = Inr res \<and>
      auth_id res = js ''ZGVmZw'' \<and> auth_rawId res = js ''ZGVmZw'' \<and>
      auth_clientDataJSON (auth_response res) = js ''eyJ0_-A'' \<and>
      auth_authenticatorData (auth_response res) = js ''SZYN-_8'' \<and>
      auth_signature (auth_response res) = js ''MEUC_-E'' \<and>
      auth_userHandle (auth_response res) = js ''dXNlcg''"
    by (simp add: exampleNativeAuthentication_def stdB64toUrlB64_examples)
  with native show ?thesis
    by (rule conjI)
qed

text \<open>
  C9. The native invocation of \<open>register\<close> is built from \<open>rp.id\<close>, the re-encoded
  challenge, \<open>user.displayName\<close>, \<open>user.id\<close> and the flag, and from nothing
  else: two requests that agree on these (whatever their \<open>rp.name\<close>, \<open>user.name\<close>
  and other fields are) lead to the same native invocation and the same outcome.
\<close>

theorem iOS_register_ignores_names:
  assumes "rp_id (rreq_rp r1) = rp_id (rreq_rp r2)"
    and "urlB64toStdB64 (rreq_challenge r1) = urlB64toStdB64 (rreq_challenge r2)"
    and "user_displayName (rreq_user r1) = user_displayName (rreq_user r2)"
    and "user_id (rreq_user r1) = user_id (rreq_user r2)"
  shows "PasskeyiOS_register nativeRegister handleNativeError r1 withSecurityKey =
         PasskeyiOS_register nativeRegister handleNativeError r2 withSecurityKey \<and>
         fst (PasskeyiOS_register nativeRegister handleNativeError r1 withSecurityKey) =
         [IOSRegister (rp_id (rreq_rp r1)) (urlB64toStdB64 (rreq_challenge r1))
            (user_displayName (rreq_user r1)) (user_id (rreq_user r1)) (orFalse withSecurityKey)]"
  using assms
  by (simp add: PasskeyiOS_register_def prepareRegistrationRequest_def Let_def)

theorem iOS_register_ignores_names_witness:
  "rp_id (rreq_rp exampleRegistrationRequest) = rp_id (rreq_rp renamedRegistrationRequest) \<and>
   urlB64toStdB64 (rreq_challenge exampleRegistrationRequest) =
     urlB64toStdB64 (rreq_challenge renamedRegistrationRequest) \<and>
   user_displayName (rreq_user exampleRegistrationRequest) =
     user_displayName (rreq_user renamedRegistrationRequest) \<and>
   user_id (rreq_user exampleRegistrationRequest) = user_id (rreq_user renamedRegistrationRequest) \<and>
   rp_name (rreq_rp exampleRegistrationRequest) \<noteq> rp_name (rreq_rp renamedRegistrationRequest) \<and>
   user_name (rreq_user exampleRegistrationRequest) \<noteq> user_name (rreq_user renamedRegistrationRequest) \<and>
   PasskeyiOS_register (iosRegisterDouble (Inr exampleNativeRegistration)) classifierDouble
     exampleRegistrationRequest (Some True) =
   PasskeyiOS_register (iosRegisterDouble (Inr exampleNativeRegistration)) classifierDouble
     renamedRegistrationRequest (Some True) \<and>
   fst (PasskeyiOS_register (iosRegisterDouble (Inr exampleNativeRegistration)) classifierDouble
          exampleRegistrationRequest (Some True)) =
   [IOSRegister (js ''example.com'') (js ''abc+/==='') (js ''User'') (js ''dXNlcg'') True]"
proof -
  have same: "rp_id (rreq_rp exampleRegistrationRequest) = rp_id (rreq_rp renamedRegistrationRequest)"
    "urlB64toStdB64 (rreq_challenge exampleRegistrationRequest) =
       urlB64toStdB64 (rreq_challenge renamedRegistrationRequest)"
    "user_displayName (rreq_user exampleRegistrationRequest) =
       user_displayName (rreq_user renamedRegistrationRequest)"
    "user_id (rreq_user exampleRegistrationRequest) = user_id (rreq_user renamedRegistrationRequest)"
    by (simp_all add: exampleRegistrationRequest_def renamedRegistrationRequest_def)
  have differ: "rp_name (rreq_rp exampleRegistrationRequest) \<noteq> rp_name (rreq_rp renamedRegistrationRequest)"
    "user_name (rreq_user exampleRegistrationRequest) \<noteq> user_name (rreq_user renamedRegistrationRequest)"
    by (simp_all add: exampleRegistrationRequest_def renamedRegistrationRequest_def js_def)
  have example: "rp_id (rreq_rp exampleRegistrationRequest) = js ''example.com''"
    "urlB64toStdB64 (rreq_challenge exampleRegistrationRequest) = js ''abc+/===''"
    "user_displayName (rreq_user exampleRegistrationRequest) = js ''User''"
    "user_id (rreq_user exampleRegistrationRequest) = js ''dXNlcg''"
    "orFalse (Some True) = True"
    by (simp_all add: exampleRegistrationRequest_def urlB64toStdB64_abc orFalse_def)
  note main = iOS_register_ignores_names
    [where nativeRegister = "iosRegisterDouble (Inr exampleNativeRegistration)"
       and handleNativeError = classifierDouble and withSecurityKey = "Some True", OF same]
  have outcome: "PasskeyiOS_register (iosRegisterDouble (Inr exampleNativeRegistration)) classifierDouble
     exampleRegistrationRequest (Some True) =
   PasskeyiOS_register (iosRegisterDouble (Inr exampleNativeRegistration)) classifierDouble
     renamedRegistrationRequest (Some True)"
    using main by (rule conjunct1)
  have calls: "fst (PasskeyiOS_register (iosRegisterDouble (Inr exampleNativeRegistration)) classifierDouble
          exampleRegistrationRequest (Some True)) =
   [IOSRegister (js ''example.com'') (js ''abc+/==='') (js ''User'') (js ''dXNlcg'') True]"
    using main [THEN conjunct2] by (simp only: example)
  from same differ outcome calls show ?thesis
    by (intro conjI)
qed

section \<open>Claims about the Android adapter\<close>

lemma getProp_setProp: "getProp (setProp obj k v) k' = (if k' = k then v else getProp obj k')"
  by (simp add: getProp_def setProp_def update_conv')

lemma map_of_setProp: "map_of (setProp obj k v) = (map_of obj)(k \<mapsto> v)"
  by (simp add: setProp_def update_conv')

lemma keys_setProp_present: "k \<in> fst ` set obj \<Longrightarrow> map fst (setProp obj k v) = map fst obj"
  by (simp add: setProp_def update_keys)

lemma getProp_JString_key: "getProp obj k = JString s \<Longrightarrow> k \<in> fst ` set obj"
  by (auto simp: getProp_def dest: map_of_SomeD split: option.splits intro: rev_image_eqI)

lemma prepareRequest_string:
  assumes "getProp request (js ''challenge'') = JString challenge"
  shows "prepareRequest request =
         Inr (setProp request (js ''challenge'') (JString (stdB64toUrlB64 challenge)))"
  using assms by (simp add: prepareRequest_def stdB64toUrlB64_def)

lemma stdB64toUrlB64_example_challenge: "stdB64toUrlB64 (js ''a+b/c='') = js ''a-b_c''"
  by (simp add: stdB64toUrlB64_def replaceAll_def js_def)

lemma js_keys_distinct:
  "js ''challenge'' \<noteq> js ''rpId''" "js ''challenge'' \<noteq> js ''timeout''"
  "js ''id'' \<noteq> js ''rawId''" "js ''type'' \<noteq> js ''rawId''" "js ''type'' \<noteq> js ''id''"
  "js ''response'' \<noteq> js ''rawId''" "js ''response'' \<noteq> js ''id''"
  "js ''other'' \<noteq> js ''public-key''"
  by (simp_all add: js_def)

text \<open>
  C5. For every request object whose \<open>challenge\<close> is a string (the declared type
  of the parameter), \<open>prepareRequest\<close> returns the request with \<open>challenge\<close>
  replaced by its url-safe unpadded form: every other property is unchanged,
  the keys and their order are unchanged, and \<open>register\<close> and \<open>authenticate\<close>
  issue one native invocation, with the text of that object. The request
  \<open>{challenge: "a+b/c="}\<close> becomes \<open>{challenge: "a-b_c"}\<close>.
\<close>

theorem prepareRequest_rewrites_only_challenge:
  assumes "getProp request (js ''challenge'') = JString challenge"
  shows "(\<exists>nativeRequest.
           (prepareRequest request :: 'e thrown + 'a jsobject) = Inr nativeRequest \<and>
           map_of nativeRequest =
             (map_of request)(js ''challenge'' \<mapsto> JString (stdB64toUrlB64 challenge)) \<and>
           (\<forall>k. k \<noteq> js ''challenge'' \<longrightarrow> getProp nativeRequest k = getProp request k) \<and>
           map fst nativeRequest = map fst request \<and>
           fst (PasskeyAndroid_register JSON_stringify JSON_parse
                  (nativeRegister :: jsstring \<Rightarrow> 'e + jsstring) handleNativeError request) =
             [AndroidRegister (JSON_stringify nativeRequest)] \<and>
           fst (PasskeyAndroid_authenticate JSON_stringify JSON_parse
                  (nativeAuthenticate :: jsstring \<Rightarrow> 'e + jsstring) handleNativeError' request) =
             [AndroidAuthenticate (JSON_stringify nativeRequest)]) \<and>
         (prepareRequest [(js ''challenge'', JString (js ''a+b/c='') :: 'a jsval)] :: 'e thrown + 'a jsobject) =
           Inr [(js ''challenge'', JString (js ''a-b_c''))]"
proof -
  let ?n = "setProp request (js ''challenge'') (JString (stdB64toUrlB64 challenge))"
  have prep: "(prepareRequest request :: 'e thrown + 'a jsobject) = Inr ?n"
    using assms by (rule prepareRequest_string)
  have keys: "map fst ?n = map fst request"
    using assms by (intro keys_setProp_present getProp_JString_key)
  have "(prepareRequest [(js ''challenge'', JString (js ''a+b/c='') :: 'a jsval)] :: 'e thrown + 'a jsobject) =
           Inr [(js ''challenge'', JString (js ''a-b_c''))]"
    by (simp add: prepareRequest_string [where challenge = "js ''a+b/c=''"] getProp_def setProp_def
        stdB64toUrlB64_example_challenge)
  with prep keys show ?thesis
    by (simp add: PasskeyAndroid_register_def PasskeyAndroid_authenticate_def
        map_of_setProp getProp_setProp)
qed

theorem prepareRequest_rewrites_only_challenge_witness:
  "getProp exampleAndroidRequest (js ''challenge'') = JString (js ''a+b/c='') \<and>
   (prepareRequest exampleAndroidRequest :: jsstring thrown + unit jsobject) =
     Inr [(js ''rpId'', JString (js ''example.com'')),
          (js ''challenge'', JString (js ''a-b_c'')),
          (js ''timeout'', JOther ())] \<and>
   fst (PasskeyAndroid_register stringifyDouble (parseDouble (Some exampleAndroidResponse))
          (androidNativeDouble (Inr (stringifyDouble exampleAndroidResponse))) classifierDouble
          exampleAndroidRequest) =
     [AndroidRegister (js ''rpId:example.com;challenge:a-b_c;timeout:;'')]"
proof -
  have c: "getProp exampleAndroidRequest (js ''challenge'') = JString (js ''a+b/c='')"
    by (simp add: exampleAndroidRequest_def getProp_def js_keys_distinct)
  have n: "setProp exampleAndroidRequest (js ''challenge'') (JString (stdB64toUrlB64 (js ''a+b/c=''))) =
     [(js ''rpId'', JString (js ''example.com'')),
      (js ''challenge'', JString (js ''a-b_c'')),
      (js ''timeout'', JOther ())]"
    by (simp add: exampleAndroidRequest_def setProp_def js_keys_distinct [symmetric]
        stdB64toUrlB64_example_challenge)
  from prepareRequest_rewrites_only_challenge
    [where request = exampleAndroidRequest and challenge = "js ''a+b/c=''"
       and JSON_stringify = stringifyDouble
       and JSON_parse = "parseDouble (Some exampleAndroidResponse)"
       and nativeRegister = "androidNativeDouble (Inr (stringifyDouble exampleAndroidResponse))"
       and nativeAuthenticate = "androidNativeDouble (Inr (stringifyDouble exampleAndroidResponse))"
       and handleNativeError = classifierDouble and handleNativeError' = classifierDouble, OF c]
  obtain nativeRequest where
    prep: "(prepareRequest exampleAndroidRequest :: jsstring thrown + unit jsobject) = Inr nativeRequest"
    and calls: "fst (PasskeyAndroid_register stringifyDouble (parseDouble (Some exampleAndroidResponse))
          (androidNativeDouble (Inr (stringifyDouble exampleAndroidResponse))) classifierDouble
          exampleAndroidRequest) = [AndroidRegister (stringifyDouble nativeRequest)]"
    by blast
  from prep have nr: "nativeRequest = [(js ''rpId'', JString (js ''example.com'')),
      (js ''challenge'', JString (js ''a-b_c'')),
      (js ''timeout'', JOther ())]"
    by (simp add: prepareRequest_string [OF c] n)
  have payload: "stringifyDouble [(js ''rpId'', JString (js ''example.com'')),
      (js ''challenge'', JString (js ''a-b_c'')),
      (js ''timeout'', JOther ())] = js ''rpId:example.com;challenge:a-b_c;timeout:;''"
    by (simp add: stringifyDouble_def js_def)
  from c prep calls show ?thesis
    unfolding nr payload by (intro conjI)
qed

lemma android_register_success:
  assumes "(prepareRequest request :: 'e thrown + 'a jsobject) = Inr nativeRequest"
    and "(nativeRegister :: jsstring \<Rightarrow> 'e + jsstring) (JSON_stringify nativeRequest) = Inr answer"
    and "JSON_parse answer = Some response"
  shows "PasskeyAndroid_register JSON_stringify JSON_parse nativeRegister handleNativeError request =
         ([AndroidRegister (JSON_stringify nativeRequest)], Inr (handleNativeResponse response))"
  using assms by (simp add: PasskeyAndroid_register_def)

lemma android_authenticate_success:
  assumes "(prepareRequest request :: 'e thrown + 'a jsobject) = Inr nativeRequest"
    and "(nativeAuthenticate :: jsstring \<Rightarrow> 'e + jsstring) (JSON_stringify nativeRequest) = Inr answer"
    and "JSON_parse answer = Some response"
  shows "PasskeyAndroid_authenticate JSON_stringify JSON_parse nativeAuthenticate handleNativeError request =
         ([AndroidAuthenticate (JSON_stringify nativeRequest)], Inr (handleNativeResponse response))"
  using assms by (simp add: PasskeyAndroid_authenticate_def)

lemma android_register_success_cases:
  assumes "snd (PasskeyAndroid_register JSON_stringify JSON_parse
                  (nativeRegister :: jsstring \<Rightarrow> 'e + jsstring) handleNativeError request) = Inr res"
  shows "\<exists>nativeRequest answer response.
           (prepareRequest request :: 'e thrown + 'a jsobject) = Inr nativeRequest \<and>
           nativeRegister (JSON_stringify nativeRequest) = Inr answer \<and>
           JSON_parse answer = Some response \<and> res = handleNativeResponse response"
  using assms
  by (auto simp: PasskeyAndroid_register_def split: sum.splits option.splits)

lemma android_authenticate_success_cases:
  assumes "snd (PasskeyAndroid_authenticate JSON_stringify JSON_parse
                  (nativeAuthenticate :: jsstring \<Rightarrow> 'e + jsstring) handleNativeError request) = Inr res"
  shows "\<exists>nativeRequest answer response.
           (prepareRequest request :: 'e thrown + 'a jsobject) = Inr nativeRequest \<and>
           nativeAuthenticate (JSON_stringify nativeRequest) = Inr answer \<and>
           JSON_parse answer = Some response \<and> res = handleNativeResponse response"
  using assms
  by (auto simp: PasskeyAndroid_authenticate_def split: sum.splits option.splits)

lemma getProp_handleNativeResponse:
  "getProp (handleNativeResponse response) k =
     (if k = js ''rawId'' then getProp response (js ''id'') else getProp response k)"
  by (simp add: handleNativeResponse_def getProp_setProp)

lemma exampleAndroidRequest_prepared:
  "(prepareRequest exampleAndroidRequest :: 'e thrown + unit jsobject) =
     Inr [(js ''rpId'', JString (js ''example.com'')),
          (js ''challenge'', JString (js ''a-b_c'')),
          (js ''timeout'', JOther ())]"
proof -
  have "getProp exampleAndroidRequest (js ''challenge'') = JString (js ''a+b/c='')"
    by (simp add: exampleAndroidRequest_def getProp_def js_keys_distinct)
  then show ?thesis
    by (simp add: prepareRequest_string exampleAndroidRequest_def setProp_def
        js_keys_distinct [symmetric] stdB64toUrlB64_example_challenge)
qed

lemma exampleAndroidResponse_handled:
  "handleNativeResponse exampleAndroidResponse =
     [(js ''rawId'', JString (js ''ZGVmZw'')),
      (js ''id'', JString (js ''ZGVmZw'')),
      (js ''type'', JString (js ''other'')),
      (js ''response'', JOther ())]"
  by (simp add: handleNativeResponse_def exampleAndroidResponse_def setProp_def getProp_def
      js_keys_distinct js_keys_distinct [symmetric])

text \<open>
  C6. For every parsed native response object, the result of \<open>handleNativeResponse\<close>
  has \<open>rawId\<close> equal to the \<open>id\<close> of the response, so \<open>rawId\<close> and \<open>id\<close> of the result
  are equal, whatever \<open>rawId\<close> the response had or lacked; every property other
  than \<open>rawId\<close> reads as in the response; and when the native capability resolves
  with a text that parses to the response, \<open>register\<close> and \<open>authenticate\<close> return
  this result.
\<close>

theorem handleNativeResponse_forces_rawId:
  "getProp (handleNativeResponse response) (js ''rawId'') = getProp response (js ''id'') \<and>
   getProp (handleNativeResponse response) (js ''rawId'') =
     getProp (handleNativeResponse response) (js ''id'') \<and>
   (\<forall>k. k \<noteq> js ''rawId'' \<longrightarrow> getProp (handleNativeResponse response) k = getProp response k) \<and>
   map_of (handleNativeResponse response) =
     (map_of response)(js ''id'' \<mapsto> getProp response (js ''id''),
                       js ''rawId'' \<mapsto> getProp response (js ''id'')) \<and>
   ((prepareRequest request :: 'e thrown + 'a jsobject) = Inr nativeRequest \<and>
    (nativeRegister :: jsstring \<Rightarrow> 'e + jsstring) (JSON_stringify nativeRequest) = Inr answer \<and>
    JSON_parse answer = Some response \<longrightarrow>
    snd (PasskeyAndroid_register JSON_stringify JSON_parse nativeRegister handleNativeError request) =
      Inr (handleNativeResponse response)) \<and>
   ((prepareRequest request :: 'e thrown + 'a jsobject) = Inr nativeRequest \<and>
    (nativeAuthenticate :: jsstring \<Rightarrow> 'e + jsstring) (JSON_stringify nativeRequest) = Inr answer \<and>
    JSON_parse answer = Some response \<longrightarrow>
    snd (PasskeyAndroid_authenticate JSON_stringify JSON_parse nativeAuthenticate handleNativeError'
           request) =
      Inr (handleNativeResponse response))"
proof -
  have "map_of (handleNativeResponse response) =
     (map_of response)(js ''id'' \<mapsto> getProp response (js ''id''),
                       js ''rawId'' \<mapsto> getProp response (js ''id''))"
    by (simp add: handleNativeResponse_def map_of_setProp)
  then show ?thesis
    by (simp add: getProp_handleNativeResponse js_keys_distinct
        android_register_success android_authenticate_success)
qed

theorem handleNativeResponse_forces_rawId_witness:
  "getProp exampleAndroidResponse (js ''rawId'') = JString (js ''b3RoZXI'') \<and>
   getProp exampleAndroidResponse (js ''id'') = JString (js ''ZGVmZw'') \<and>
   (prepareRequest exampleAndroidRequest :: jsstring thrown + unit jsobject) =
     Inr [(js ''rpId'', JString (js ''example.com'')),
          (js ''challenge'', JString (js ''a-b_c'')),
          (js ''timeout'', JOther ())] \<and>
   androidNativeDouble (Inr (stringifyDouble exampleAndroidResponse) :: jsstring + jsstring)
     (stringifyDouble [(js ''rpId'', JString (js ''example.com'')),
          (js ''challenge'', JString (js ''a-b_c'')),
          (js ''timeout'', JOther ())]) = Inr (stringifyDouble exampleAndroidResponse) \<and>
   parseDouble (Some exampleAndroidResponse) (stringifyDouble exampleAndroidResponse) =
     Some exampleAndroidResponse \<and>
   snd (PasskeyAndroid_register stringifyDouble (parseDouble (Some exampleAndroidResponse))
          (androidNativeDouble (Inr (stringifyDouble exampleAndroidResponse))) classifierDouble
          exampleAndroidRequest) =
     Inr [(js ''rawId'', JString (js ''ZGVmZw'')),
          (js ''id'', JString (js ''ZGVmZw'')),
          (js ''type'', JString (js ''other'')),
          (js ''response'', JOther ())] \<and>
   getProp (handleNativeResponse exampleAndroidResponse) (js ''type'') = JString (js ''other'')"
proof -
  let ?prepared = "[(js ''rpId'', JString (js ''example.com'')),
          (js ''challenge'', JString (js ''a-b_c'')),
          (js ''timeout'', JOther ())] :: unit jsobject"
  have props: "getProp exampleAndroidResponse (js ''rawId'') = JString (js ''b3RoZXI'')"
    "getProp exampleAndroidResponse (js ''id'') = JString (js ''ZGVmZw'')"
    "getProp exampleAndroidResponse (js ''type'') = JString (js ''other'')"
    by (simp_all add: exampleAndroidResponse_def getProp_def js_keys_distinct
        js_keys_distinct [symmetric])
  have prep: "(prepareRequest exampleAndroidRequest :: jsstring thrown + unit jsobject) = Inr ?prepared"
    by (rule exampleAndroidRequest_prepared)
  have native: "androidNativeDouble (Inr (stringifyDouble exampleAndroidResponse) :: jsstring + jsstring)
     (stringifyDouble ?prepared) = Inr (stringifyDouble exampleAndroidResponse)"
    by (simp add: androidNativeDouble_def)
  have parse: "parseDouble (Some exampleAndroidResponse) (stringifyDouble exampleAndroidResponse) =
     Some exampleAndroidResponse"
    by (simp add: parseDouble_def)
  note main = handleNativeResponse_forces_rawId
    [where response = exampleAndroidResponse and request = exampleAndroidRequest
       and nativeRequest = ?prepared and JSON_stringify = stringifyDouble
       and JSON_parse = "parseDouble (Some exampleAndroidResponse)"
       and nativeRegister = "androidNativeDouble (Inr (stringifyDouble exampleAndroidResponse))"
       and answer = "stringifyDouble exampleAndroidResponse"
       and handleNativeError = classifierDouble]
  from main prep native parse
  have call: "snd (PasskeyAndroid_register stringifyDouble (parseDouble (Some exampleAndroidResponse))
          (androidNativeDouble (Inr (stringifyDouble exampleAndroidResponse))) classifierDouble
          exampleAndroidRequest) = Inr (handleNativeResponse exampleAndroidResponse)"
    by blast
  from main have "getProp (handleNativeResponse exampleAndroidResponse) (js ''type'') =
      getProp exampleAndroidResponse (js ''type'')"
    using js_keys_distinct(4) by blast
  then have ty: "getProp (handleNativeResponse exampleAndroidResponse) (js ''type'') = JString (js ''other'')"
    by (simp only: props)
  from props(1,2) prep native parse call ty show ?thesis
    unfolding exampleAndroidResponse_handled by (intro conjI)
qed

section \<open>Claims about both adapters\<close>

lemma iOS_register_success_cases:
  assumes "snd (PasskeyiOS_register nativeRegister handleNativeError request withSecurityKey) = Inr res"
  shows "\<exists>result. res = handleNativeRegistrationResult result"
  using assms
  by (auto simp: PasskeyiOS_register_def Let_def split: sum.splits)

lemma iOS_authenticate_success_cases:
  assumes "snd (PasskeyiOS_authenticate nativeAuthenticate handleNativeError request withSecurityKey) =
           Inr res"
  shows "\<exists>result. res = handleNativeAuthenticationResult result"
  using assms
  by (auto simp: PasskeyiOS_authenticate_def split: sum.splits)

lemma exampleAndroid_register:
  "PasskeyAndroid_register stringifyDouble (parseDouble (Some exampleAndroidResponse))
     (androidNativeDouble (Inr (stringifyDouble exampleAndroidResponse) :: jsstring + jsstring))
     handleNativeError exampleAndroidRequest =
   ([AndroidRegister (stringifyDouble
       [(js ''rpId'', JString (js ''example.com'')),
        (js ''challenge'', JString (js ''a-b_c'')),
        (js ''timeout'', JOther ())])],
    Inr (handleNativeResponse exampleAndroidResponse))"
  by (rule android_register_success [OF exampleAndroidRequest_prepared])
    (simp_all add: androidNativeDouble_def parseDouble_def)

lemma exampleAndroid_authenticate:
  "PasskeyAndroid_authenticate stringifyDouble (parseDouble (Some exampleAndroidResponse))
     (androidNativeDouble (Inr (stringifyDouble exampleAndroidResponse) :: jsstring + jsstring))
     handleNativeError exampleAndroidRequest =
   ([AndroidAuthenticate (stringifyDouble
       [(js ''rpId'', JString (js ''example.com'')),
        (js ''challenge'', JString (js ''a-b_c'')),
        (js ''timeout'', JOther ())])],
    Inr (handleNativeResponse exampleAndroidResponse))"
  by (rule android_authenticate_success [OF exampleAndroidRequest_prepared])
    (simp_all add: androidNativeDouble_def parseDouble_def)

text \<open>
  C2, as stated: every successful \<open>register\<close> and \<open>authenticate\<close>, on iOS and on
  Android, returns a result whose \<open>type\<close> is \<open>public-key\<close>. The Android adapter
  returns the \<open>type\<close> of the native response: on the example response, whose
  \<open>type\<close> is \<open>other\<close>, \<open>register\<close> succeeds with a result whose \<open>type\<close> is \<open>other\<close>.
\<close>

theorem result_type_public_key_counterexample:
  "snd (PasskeyAndroid_register stringifyDouble (parseDouble (Some exampleAndroidResponse))
          (androidNativeDouble (Inr (stringifyDouble exampleAndroidResponse))) classifierDouble
          exampleAndroidRequest) =
     Inr [(js ''rawId'', JString (js ''ZGVmZw'')),
          (js ''id'', JString (js ''ZGVmZw'')),
          (js ''type'', JString (js ''other'')),
          (js ''response'', JOther ())] \<and>
   getProp [(js ''rawId'', JString (js ''ZGVmZw'')),
            (js ''id'', JString (js ''ZGVmZw'')),
            (js ''type'', JString (js ''other'')),
            (js ''response'', JOther ())] (js ''type'') \<noteq> JString (js ''public-key'')"
  by (simp add: exampleAndroid_register exampleAndroidResponse_handled getProp_def
      js_keys_distinct)

text \<open>
  C2, amended: every successful \<open>register\<close> and \<open>authenticate\<close> of the iOS adapter
  returns a result whose \<open>type\<close> is \<open>public-key\<close>. Every successful \<open>register\<close>
  and \<open>authenticate\<close> of the Android adapter returns \<open>handleNativeResponse\<close> of
  the parsed native response, whose \<open>type\<close> is the \<open>type\<close> of that response.
\<close>

theorem result_type:
  "(snd (PasskeyiOS_register iosRegister handleNativeError regRequest withSecurityKey) = Inr regResult \<longrightarrow>
      reg_type regResult = js ''public-key'') \<and>
   (snd (PasskeyiOS_authenticate iosAuthenticate handleNativeError' authRequest withSecurityKey') =
      Inr authResult \<longrightarrow>
      auth_type authResult = js ''public-key'') \<and>
   (snd (PasskeyAndroid_register JSON_stringify JSON_parse
           (androidRegister :: jsstring \<Rightarrow> 'e + jsstring) handleNativeError'' request) = Inr res \<longrightarrow>
      (\<exists>nativeRequest answer response.
          (prepareRequest request :: 'e thrown + 'a jsobject) = Inr nativeRequest \<and>
          androidRegister (JSON_stringify nativeRequest) = Inr answer \<and>
          JSON_parse answer = Some response \<and> res = handleNativeResponse response \<and>
          getProp res (js ''type'') = getProp response (js ''type''))) \<and>
   (snd (PasskeyAndroid_authenticate JSON_stringify' JSON_parse'
           (androidAuthenticate :: jsstring \<Rightarrow> 'f + jsstring) handleNativeError''' request') = Inr res' \<longrightarrow>
      (\<exists>nativeRequest answer response.
          (prepareRequest request' :: 'f thrown + 'b jsobject) = Inr nativeRequest \<and>
          androidAuthenticate (JSON_stringify' nativeRequest) = Inr answer \<and>
          JSON_parse' answer = Some response \<and> res' = handleNativeResponse response \<and>
          getProp res' (js ''type'') = getProp response (js ''type'')))"
proof (intro conjI impI)
  assume "snd (PasskeyiOS_register iosRegister handleNativeError regRequest withSecurityKey) = Inr regResult"
  then obtain result where "regResult = handleNativeRegistrationResult result"
    using iOS_register_success_cases by blast
  then show "reg_type regResult = js ''public-key''"
    by (simp add: handleNativeRegistrationResult_def)
next
  assume "snd (PasskeyiOS_authenticate iosAuthenticate handleNativeError' authRequest withSecurityKey') =
      Inr authResult"
  then obtain result where "authResult = handleNativeAuthenticationResult result"
    using iOS_authenticate_success_cases by blast
  then show "auth_type authResult = js ''public-key''"
    by (simp add: handleNativeAuthenticationResult_def)
next
  assume "snd (PasskeyAndroid_register JSON_stringify JSON_parse androidRegister handleNativeError''
                 request) = Inr res"
  from android_register_success_cases [OF this]
  show "\<exists>nativeRequest answer response.
          (prepareRequest request :: 'e thrown + 'a jsobject) = Inr nativeRequest \<and>
          androidRegister (JSON_stringify nativeRequest) = Inr answer \<and>
          JSON_parse answer = Some response \<and> res = handleNativeResponse response \<and>
          getProp res (js ''type'') = getProp response (js ''type'')"
    by (auto simp: getProp_handleNativeResponse js_keys_distinct)
next
  assume "snd (PasskeyAndroid_authenticate JSON_stringify' JSON_parse' androidAuthenticate
                 handleNativeError''' request') = Inr res'"
  from android_authenticate_success_cases [OF this]
  show "\<exists>nativeRequest answer response.
          (prepareRequest request' :: 'f thrown + 'b jsobject) = Inr nativeRequest \<and>
          androidAuthenticate (JSON_stringify' nativeRequest) = Inr answer \<and>
          JSON_parse' answer = Some response \<and> res' = handleNativeResponse response \<and>
          getProp res' (js ''type'') = getProp response (js ''type'')"
    by (auto simp: getProp_handleNativeResponse js_keys_distinct)
qed

theorem result_type_witness:
  "snd (PasskeyiOS_register (iosRegisterDouble (Inr exampleNativeRegistration)) classifierDouble
          exampleRegistrationRequest None) =
     Inr (handleNativeRegistrationResult exampleNativeRegistration) \<and>
   reg_type (handleNativeRegistrationResult exampleNativeRegistration) = js ''public-key'' \<and>
   snd (PasskeyiOS_authenticate (iosAuthenticateDouble (Inr exampleNativeAuthentication))
          classifierDouble exampleAuthenticationRequest None) =
     Inr (handleNativeAuthenticationResult exampleNativeAuthentication) \<and>
   auth_type (handleNativeAuthenticationResult exampleNativeAuthentication) = js ''public-key'' \<and>
   snd (PasskeyAndroid_register stringifyDouble (parseDouble (Some exampleAndroidResponse))
          (androidNativeDouble (Inr (stringifyDouble exampleAndroidResponse))) classifierDouble
          exampleAndroidRequest) =
     Inr (handleNativeResponse exampleAndroidResponse) \<and>
   snd (PasskeyAndroid_authenticate stringifyDouble (parseDouble (Some exampleAndroidResponse))
          (androidNativeDouble (Inr (stringifyDouble exampleAndroidResponse))) classifierDouble
          exampleAndroidRequest) =
     Inr (handleNativeResponse exampleAndroidResponse) \<and>
   getProp (handleNativeResponse exampleAndroidResponse) (js ''type'') =
     getProp exampleAndroidResponse (js ''type'')"
proof -
  have r: "snd (PasskeyiOS_register (iosRegisterDouble (Inr exampleNativeRegistration)) classifierDouble
          exampleRegistrationRequest None) =
     Inr (handleNativeRegistrationResult exampleNativeRegistration)"
    by (simp add: PasskeyiOS_register_def iosRegisterDouble_def Let_def)
  have a: "snd (PasskeyiOS_authenticate (iosAuthenticateDouble (Inr exampleNativeAuthentication))
          classifierDouble exampleAuthenticationRequest None) =
     Inr (handleNativeAuthenticationResult exampleNativeAuthentication)"
    by (simp add: PasskeyiOS_authenticate_def iosAuthenticateDouble_def)
  have ar: "snd (PasskeyAndroid_register stringifyDouble (parseDouble (Some exampleAndroidResponse))
          (androidNativeDouble (Inr (stringifyDouble exampleAndroidResponse))) classifierDouble
          exampleAndroidRequest) =
     Inr (handleNativeResponse exampleAndroidResponse)"
    by (simp add: exampleAndroid_register)
  have aa: "snd (PasskeyAndroid_authenticate stringifyDouble (parseDouble (Some exampleAndroidResponse))
          (androidNativeDouble (Inr (stringifyDouble exampleAndroidResponse))) classifierDouble
          exampleAndroidRequest) =
     Inr (handleNativeResponse exampleAndroidResponse)"
    by (simp add: exampleAndroid_authenticate)
  note main = result_type
    [where iosRegister = "iosRegisterDouble (Inr exampleNativeRegistration)"
       and handleNativeError = classifierDouble and regRequest = exampleRegistrationRequest
       and withSecurityKey = None
       and regResult = "handleNativeRegistrationResult exampleNativeRegistration"
       and iosAuthenticate = "iosAuthenticateDouble (Inr exampleNativeAuthentication)"
       and handleNativeError' = classifierDouble and authRequest = exampleAuthenticationRequest
       and withSecurityKey' = None
       and authResult = "handleNativeAuthenticationResult exampleNativeAuthentication"
       and JSON_stringify = stringifyDouble
       and JSON_parse = "parseDouble (Some exampleAndroidResponse)"
       and androidRegister = "androidNativeDouble (Inr (stringifyDouble exampleAndroidResponse))"
       and handleNativeError'' = classifierDouble and request = exampleAndroidRequest
       and res = "handleNativeResponse exampleAndroidResponse"
       and JSON_stringify' = stringifyDouble
       and JSON_parse' = "parseDouble (Some exampleAndroidResponse)"
       and androidAuthenticate = "androidNativeDouble (Inr (stringifyDouble exampleAndroidResponse))"
       and handleNativeError''' = classifierDouble and request' = exampleAndroidRequest
       and res' = "handleNativeResponse exampleAndroidResponse"]
  from main r have rt: "reg_type (handleNativeRegistrationResult exampleNativeRegistration) = js ''public-key''"
    by blast
  from main a have at: "auth_type (handleNativeAuthenticationResult exampleNativeAuthentication) = js ''public-key''"
    by blast
  from main ar obtain response where
    "parseDouble (Some exampleAndroidResponse) (stringifyDouble exampleAndroidResponse) = Some response \<or>
     (\<exists>answer. parseDouble (Some exampleAndroidResponse) answer = Some response)"
    and ty: "getProp (handleNativeResponse exampleAndroidResponse) (js ''type'') =
             getProp response (js ''type'')"
    by blast
  then have "response = exampleAndroidResponse"
    by (auto simp: parseDouble_def)
  with ty have ty': "getProp (handleNativeResponse exampleAndroidResponse) (js ''type'') =
     getProp exampleAndroidResponse (js ''type'')"
    by simp
  from r rt a at ar aa ty' show ?thesis
    by (intro conjI)
qed

text \<open>
  C8. When the native capability rejects with an error, each of the four
  operations issues that one native invocation and fails with
  \<open>handleNativeError\<close> applied once to the error: no second invocation, no
  result. With the classifier as the specification describes it, what the
  caller receives is an error of one of the enumerated kinds, the kind given
  to the native error, and it is not the native error as it was raised. (On
  Android the native capability is reached when \<open>prepareRequest\<close> has returned.)
\<close>

theorem native_error_classified_once:
  "(iosRegister (rp_id (rreq_rp regRequest)) (urlB64toStdB64 (rreq_challenge regRequest))
      (user_displayName (rreq_user regRequest)) (user_id (rreq_user regRequest))
      (orFalse withSecurityKey) = Inl (error :: 'e) \<longrightarrow>
    PasskeyiOS_register iosRegister handleNativeError regRequest withSecurityKey =
      ([IOSRegister (rp_id (rreq_rp regRequest)) (urlB64toStdB64 (rreq_challenge regRequest))
          (user_displayName (rreq_user regRequest)) (user_id (rreq_user regRequest))
          (orFalse withSecurityKey)],
       Inl (handleNativeError (NativeError error))) \<and>
    PasskeyiOS_register iosRegister (handleNativeErrorSpec kindOf) regRequest withSecurityKey =
      ([IOSRegister (rp_id (rreq_rp regRequest)) (urlB64toStdB64 (rreq_challenge regRequest))
          (user_displayName (rreq_user regRequest)) (user_id (rreq_user regRequest))
          (orFalse withSecurityKey)],
       Inl (PasskeyError (kindOf (NativeError error)))) \<and>
    snd (PasskeyiOS_register iosRegister (handleNativeErrorSpec kindOf) regRequest withSecurityKey) \<noteq>
      Inl (RawError (NativeError error))) \<and>
   (iosAuthenticate (areq_rpId authRequest) (urlB64toStdB64 (areq_challenge authRequest))
      (orFalse withSecurityKey) = Inl error \<longrightarrow>
    PasskeyiOS_authenticate iosAuthenticate handleNativeError authRequest withSecurityKey =
      ([IOSAuthenticate (areq_rpId authRequest) (urlB64toStdB64 (areq_challenge authRequest))
          (orFalse withSecurityKey)],
       Inl (handleNativeError (NativeError error))) \<and>
    PasskeyiOS_authenticate iosAuthenticate (handleNativeErrorSpec kindOf) authRequest withSecurityKey =
      ([IOSAuthenticate (areq_rpId authRequest) (urlB64toStdB64 (areq_challenge authRequest))
          (orFalse withSecurityKey)],
       Inl (PasskeyError (kindOf (NativeError error)))) \<and>
    snd (PasskeyiOS_authenticate iosAuthenticate (handleNativeErrorSpec kindOf) authRequest
           withSecurityKey) \<noteq>
      Inl (RawError (NativeError error))) \<and>
   ((prepareRequest request :: 'e thrown + 'a jsobject) = Inr nativeRequest \<and>
    androidRegister (JSON_stringify nativeRequest) = Inl error \<longrightarrow>
    PasskeyAndroid_register JSON_stringify JSON_parse androidRegister handleNativeError request =
      ([AndroidRegister (JSON_stringify nativeRequest)],
       Inl (Classified (handleNativeError (NativeError error)))) \<and>
    PasskeyAndroid_register JSON_stringify JSON_parse androidRegister (handleNativeErrorSpec kindOf)
        request =
      ([AndroidRegister (JSON_stringify nativeRequest)],
       Inl (Classified (PasskeyError (kindOf (NativeError error))))) \<and>
    snd (PasskeyAndroid_register JSON_stringify JSON_parse androidRegister
           (handleNativeErrorSpec kindOf) request) \<noteq>
      Inl (Classified (RawError (NativeError error))) \<and>
    snd (PasskeyAndroid_register JSON_stringify JSON_parse androidRegister
           (handleNativeErrorSpec kindOf) request) \<noteq>
      Inl (Uncaught (NativeError error))) \<and>
   ((prepareRequest request :: 'e thrown + 'a jsobject) = Inr nativeRequest \<and>
    androidAuthenticate (JSON_stringify nativeRequest) = Inl error \<longrightarrow>
    PasskeyAndroid_authenticate JSON_stringify JSON_parse androidAuthenticate handleNativeError request =
      ([AndroidAuthenticate (JSON_stringify nativeRequest)],
       Inl (Classified (handleNativeError (NativeError error)))) \<and>
    PasskeyAndroid_authenticate JSON_stringify JSON_parse androidAuthenticate
        (handleNativeErrorSpec kindOf) request =
      ([AndroidAuthenticate (JSON_stringify nativeRequest)],
       Inl (Classified (PasskeyError (kindOf (NativeError error))))) \<and>
    snd (PasskeyAndroid_authenticate JSON_stringify JSON_parse androidAuthenticate
           (handleNativeErrorSpec kindOf) request) \<noteq>
      Inl (Classified (RawError (NativeError error))) \<and>
    snd (PasskeyAndroid_authenticate JSON_stringify JSON_parse androidAuthenticate
           (handleNativeErrorSpec kindOf) request) \<noteq>
      Inl (Uncaught (NativeError error)))"
  by (simp add: PasskeyiOS_register_def PasskeyiOS_authenticate_def prepareRegistrationRequest_def
      PasskeyAndroid_register_def PasskeyAndroid_authenticate_def handleNativeErrorSpec_def Let_def)

theorem native_error_classified_once_witness:
  "PasskeyiOS_register (iosRegisterDouble (Inl (js ''UserCancelled''))) classifierDouble
     exampleRegistrationRequest None =
     ([IOSRegister (js ''example.com'') (js ''abc+/==='') (js ''User'') (js ''dXNlcg'') False],
      Inl UserCancelled) \<and>
   PasskeyiOS_register (iosRegisterDouble (Inl (js ''UserCancelled'')))
     (handleNativeErrorSpec classifierDouble) exampleRegistrationRequest None =
     ([IOSRegister (js ''example.com'') (js ''abc+/==='') (js ''User'') (js ''dXNlcg'') False],
      Inl (PasskeyError UserCancelled)) \<and>
   PasskeyiOS_authenticate (iosAuthenticateDouble (Inl (js ''UserCancelled''))) classifierDouble
     exampleAuthenticationRequest None =
     ([IOSAuthenticate (js ''example.com'') (js ''YQ=='') False], Inl UserCancelled) \<and>
   PasskeyiOS_authenticate (iosAuthenticateDouble (Inl (js ''UserCancelled'')))
     (handleNativeErrorSpec classifierDouble) exampleAuthenticationRequest None =
     ([IOSAuthenticate (js ''example.com'') (js ''YQ=='') False], Inl (PasskeyError UserCancelled)) \<and>
   PasskeyAndroid_register stringifyDouble (parseDouble (Some exampleAndroidResponse))
     (androidNativeDouble (Inl (js ''UserCancelled''))) classifierDouble exampleAndroidRequest =
     ([AndroidRegister (js ''rpId:example.com;challenge:a-b_c;timeout:;'')],
      Inl (Classified UserCancelled)) \<and>
   PasskeyAndroid_register stringifyDouble (parseDouble (Some exampleAndroidResponse))
     (androidNativeDouble (Inl (js ''UserCancelled''))) (handleNativeErrorSpec classifierDouble)
     exampleAndroidRequest =
     ([AndroidRegister (js ''rpId:example.com;challenge:a-b_c;timeout:;'')],
      Inl (Classified (PasskeyError UserCancelled))) \<and>
   PasskeyAndroid_authenticate stringifyDouble (parseDouble (Some exampleAndroidResponse))
     (androidNativeDouble (Inl (js ''UserCancelled''))) classifierDouble exampleAndroidRequest =
     ([AndroidAuthenticate (js ''rpId:example.com;challenge:a-b_c;timeout:;'')],
      Inl (Classified UserCancelled)) \<and>
   PasskeyAndroid_authenticate stringifyDouble (parseDouble (Some exampleAndroidResponse))
     (androidNativeDouble (Inl (js ''UserCancelled''))) (handleNativeErrorSpec classifierDouble)
     exampleAndroidRequest =
     ([AndroidAuthenticate (js ''rpId:example.com;challenge:a-b_c;timeout:;'')],
      Inl (Classified (PasskeyError UserCancelled)))"
proof -
  let ?prepared = "[(js ''rpId'', JString (js ''example.com'')),
          (js ''challenge'', JString (js ''a-b_c'')),
          (js ''timeout'', JOther ())] :: unit jsobject"
  have payload: "stringifyDouble ?prepared = js ''rpId:example.com;challenge:a-b_c;timeout:;''"
    by (simp add: stringifyDouble_def js_def)
  have example: "rp_id (rreq_rp exampleRegistrationRequest) = js ''example.com''"
    "urlB64toStdB64 (rreq_challenge exampleRegistrationRequest) = js ''abc+/===''"
    "user_displayName (rreq_user exampleRegistrationRequest) = js ''User''"
    "user_id (rreq_user exampleRegistrationRequest) = js ''dXNlcg''"
    "orFalse None = False"
    "areq_rpId exampleAuthenticationRequest = js ''example.com''"
    "urlB64toStdB64 (areq_challenge exampleAuthenticationRequest) = js ''YQ==''"
    "classifierDouble (NativeError (js ''UserCancelled'')) = UserCancelled"
    by (simp_all add: exampleRegistrationRequest_def exampleAuthenticationRequest_def
        urlB64toStdB64_abc orFalse_def urlB64toStdB64_replicate replaceAll_def js_def
        replicate_small)
  note main = native_error_classified_once
    [where iosRegister = "iosRegisterDouble (Inl (js ''UserCancelled''))"
       and regRequest = exampleRegistrationRequest and withSecurityKey = None
       and error = "js ''UserCancelled''" and handleNativeError = classifierDouble
       and kindOf = classifierDouble
       and iosAuthenticate = "iosAuthenticateDouble (Inl (js ''UserCancelled''))"
       and authRequest = exampleAuthenticationRequest
       and request = exampleAndroidRequest and nativeRequest = ?prepared
       and androidRegister = "androidNativeDouble (Inl (js ''UserCancelled''))"
       and androidAuthenticate = "androidNativeDouble (Inl (js ''UserCancelled''))"
       and JSON_stringify = stringifyDouble
       and JSON_parse = "parseDouble (Some exampleAndroidResponse)"]
  have c1: "PasskeyiOS_register (iosRegisterDouble (Inl (js ''UserCancelled''))) classifierDouble
     exampleRegistrationRequest None =
     ([IOSRegister (js ''example.com'') (js ''abc+/==='') (js ''User'') (js ''dXNlcg'') False],
      Inl UserCancelled) \<and>
   PasskeyiOS_register (iosRegisterDouble (Inl (js ''UserCancelled'')))
     (handleNativeErrorSpec classifierDouble) exampleRegistrationRequest None =
     ([IOSRegister (js ''example.com'') (js ''abc+/==='') (js ''User'') (js ''dXNlcg'') False],
      Inl (PasskeyError UserCancelled))"
    using main [THEN conjunct1] by (simp only: example iosRegisterDouble_def simp_thms)
  have c2: "PasskeyiOS_authenticate (iosAuthenticateDouble (Inl (js ''UserCancelled''))) classifierDouble
     exampleAuthenticationRequest None =
     ([IOSAuthenticate (js ''example.com'') (js ''YQ=='') False], Inl UserCancelled) \<and>
   PasskeyiOS_authenticate (iosAuthenticateDouble (Inl (js ''UserCancelled'')))
     (handleNativeErrorSpec classifierDouble) exampleAuthenticationRequest None =
     ([IOSAuthenticate (js ''example.com'') (js ''YQ=='') False], Inl (PasskeyError UserCancelled))"
    using main [THEN conjunct2, THEN conjunct1]
    by (simp only: example iosAuthenticateDouble_def simp_thms)
  have c3: "PasskeyAndroid_register stringifyDouble (parseDouble (Some exampleAndroidResponse))
     (androidNativeDouble (Inl (js ''UserCancelled''))) classifierDouble exampleAndroidRequest =
     ([AndroidRegister (js ''rpId:example.com;challenge:a-b_c;timeout:;'')],
      Inl (Classified UserCancelled)) \<and>
   PasskeyAndroid_register stringifyDouble (parseDouble (Some exampleAndroidResponse))
     (androidNativeDouble (Inl (js ''UserCancelled''))) (handleNativeErrorSpec classifierDouble)
     exampleAndroidRequest =
     ([AndroidRegister (js ''rpId:example.com;challenge:a-b_c;timeout:;'')],
      Inl (Classified (PasskeyError UserCancelled)))"
    using main [THEN conjunct2, THEN conjunct2, THEN conjunct1]
    by (simp only: example exampleAndroidRequest_prepared androidNativeDouble_def payload simp_thms)
  have c4: "PasskeyAndroid_authenticate stringifyDouble (parseDouble (Some exampleAndroidResponse))
     (androidNativeDouble (Inl (js ''UserCancelled''))) classifierDouble exampleAndroidRequest =
     ([AndroidAuthenticate (js ''rpId:example.com;challenge:a-b_c;timeout:;'')],
      Inl (Classified UserCancelled)) \<and>
   PasskeyAndroid_authenticate stringifyDouble (parseDouble (Some exampleAndroidResponse))
     (androidNativeDouble (Inl (js ''UserCancelled''))) (handleNativeErrorSpec classifierDouble)
     exampleAndroidRequest =
     ([AndroidAuthenticate (js ''rpId:example.com;challenge:a-b_c;timeout:;'')],
      Inl (Classified (PasskeyError UserCancelled)))"
    using main [THEN conjunct2, THEN conjunct2, THEN conjunct2]
    by (simp only: example exampleAndroidRequest_prepared androidNativeDouble_def payload simp_thms)
  from c1 c2 c3 c4 show ?thesis
    by (simp only: simp_thms)
qed

end
